theory Spec2Isabelle
  imports Main "HOL-Library.Finite_Map"
begin

section \<open>Keyword extractor\<close>

text \<open>
  The restaurants service imports \<^verbatim>\<open>extractAndCountKeywords\<close> from
  \<^verbatim>\<open>src/helpers/util\<close>, a file that is not part of the available sources. The
  definitions of this section follow section 4.1 of the specification.
\<close>

text \<open>
  A keyword map is a JavaScript object from words to counts: a finite map. Its keys are
  \<open>fmdom\<close>, a lookup is \<open>fmlookup\<close>.
\<close>

type_synonym keyword_map = "(string, int) fmap"

definition ascii_upper :: string where
  "ascii_upper = ''ABCDEFGHIJKLMNOPQRSTUVWXYZ''"

definition ascii_lower :: string where
  "ascii_lower = ''abcdefghijklmnopqrstuvwxyz''"

definition ascii_digits :: string where
  "ascii_digits = ''0123456789''"

definition lower_char :: "char \<Rightarrow> char" where
  "lower_char c =
     (case map_of (zip ascii_upper ascii_lower) c of None \<Rightarrow> c | Some d \<Rightarrow> d)"

definition toLowerCase :: "string \<Rightarrow> string" where
  "toLowerCase t = map lower_char t"

definition word_char :: "char \<Rightarrow> bool" where
  "word_char c \<longleftrightarrow> c \<in> set (ascii_lower @ ascii_upper @ ascii_digits @ ''_'')"

text \<open>
  Cutting a text at every character that is not a word character; \<open>w\<close> is the piece
  read so far. Two separators in a row leave an empty piece between them.
\<close>

fun split_nonword :: "string \<Rightarrow> string \<Rightarrow> string list" where
  "split_nonword w [] = [w]"
| "split_nonword w (c # cs) =
     (if word_char c then split_nonword (w @ [c]) cs else w # split_nonword [] cs)"

text \<open>
  Modelled from the spec: the tokenizer of the missing \<^verbatim>\<open>src/helpers/util\<close>.
  ``Tokenize text by lower-casing and splitting on non-word boundaries into a sequence of
  tokens; empty tokens are discarded.''
\<close>

definition tokenize :: "string \<Rightarrow> string list" where
  "tokenize t = filter (\<lambda>w. w \<noteq> []) (split_nonword [] (toLowerCase t))"

text \<open>
  Modelled from the spec: the two per-token updates of the missing extractor. Adding
  increments the count and inserts the token with count 1 if it is absent. Subtracting
  decrements the count and deletes the key if the resulting count is \<open>\<le> 0\<close>; a token that
  is not a key leaves the map as it is.
\<close>

definition add_token :: "string \<Rightarrow> keyword_map \<Rightarrow> keyword_map" where
  "add_token w m =
     (case fmlookup m w of None \<Rightarrow> fmupd w 1 m | Some c \<Rightarrow> fmupd w (c + 1) m)"

definition subtract_token :: "string \<Rightarrow> keyword_map \<Rightarrow> keyword_map" where
  "subtract_token w m =
     (case fmlookup m w of
        None \<Rightarrow> m
      | Some c \<Rightarrow> if c - 1 \<le> 0 then fmdrop w m else fmupd w (c - 1) m)"

text \<open>
  Modelled from the spec: \<^verbatim>\<open>extractAndCountKeywords(existing, text, subtract)\<close> of the
  missing \<^verbatim>\<open>src/helpers/util\<close>. An absent or empty text returns \<open>existing\<close>
  unchanged; otherwise every token of the text updates the map in turn. The service calls
  it with two arguments for the add direction, which is \<open>subtract = False\<close> here.
\<close>

definition extractAndCountKeywords :: "keyword_map \<Rightarrow> string option \<Rightarrow> bool \<Rightarrow> keyword_map" where
  "extractAndCountKeywords existing text subtract =
     (case text of
        None \<Rightarrow> existing
      | Some t \<Rightarrow>
          if t = [] then existing
          else fold (if subtract then subtract_token else add_token) (tokenize t) existing)"

text \<open>The invariant of the keyword index: every key present has a count of at least 1.\<close>

definition counts_positive :: "keyword_map \<Rightarrow> bool" where
  "counts_positive m \<longleftrightarrow> (\<forall>w c. fmlookup m w = Some c \<longrightarrow> 1 \<le> c)"

text \<open>A finite sequence of extractor calls, each with its text and its direction.\<close>

fun extractor_calls :: "keyword_map \<Rightarrow> (string option \<times> bool) list \<Rightarrow> keyword_map" where
  "extractor_calls m [] = m"
| "extractor_calls m ((text, subtract) # calls) =
     extractor_calls (extractAndCountKeywords m text subtract) calls"


section \<open>Entities and inputs\<close>

text \<open>
  The entity and input classes are declared in files that are not part of the available
  sources; their fields are the ones the service reads and writes. An entity that has not
  been saved yet has no id. Prices are carried as they come and only compared with zero.
\<close>

record user =
  user_id :: nat

record restaurant =
  r_id :: "nat option"
  r_ownerId :: nat
  r_name :: string
  r_description :: "string option"
  r_keywords :: keyword_map

record dish =
  d_id :: "nat option"
  d_restaurantId :: nat
  d_name :: string
  d_description :: "string option"
  d_price :: int
  d_photo :: "string option"

record create_restaurant_input =
  cr_name :: string
  cr_description :: "string option"


record add_dish_input =
  ad_name :: "string option"
  ad_description :: "string option"
  ad_photo :: "string option"
  ad_price :: "int option"
  ad_restaurantId :: "nat option"

record update_dish_input =
  ud_description :: "string option"
  ud_id :: nat
  ud_photo :: "string option"
  ud_price :: "int option"
  ud_name :: "string option"

record browse_restaurants_input =
  br_limit :: "int option"
  br_query :: "string option"
  br_offset :: "int option"

text \<open>JavaScript truthiness of an optional string: present and not empty.\<close>

definition truthy :: "string option \<Rightarrow> bool" where
  "truthy t = (case t of None \<Rightarrow> False | Some x \<Rightarrow> x \<noteq> [])"

section \<open>Results\<close>

datatype error_code = BAD_REQUEST | NOT_FOUND | UNAUTHORIZED | INTERNAL_SERVER_ERROR

text \<open>
  The tagged result every operation returns: \<^verbatim>\<open>{ok: true, ...}\<close> with its payload, or
  \<^verbatim>\<open>{ok: false, error: {code, message}}\<close>. Messages are left out.
\<close>

datatype 'a result = Ok 'a | Failed error_code

text \<open>
  Modelled from the spec: the helpers of the missing \<^verbatim>\<open>src/helpers/http-codes\<close>, each
  building the failure result of its kind (section 7: validation, not-found,
  authorization and internal errors).
\<close>

definition badRequestError :: "'a result" where
  "badRequestError = Failed BAD_REQUEST"

definition notFoundError :: "'a result" where
  "notFoundError = Failed NOT_FOUND"

definition unauthorizedError :: "'a result" where
  "unauthorizedError = Failed UNAUTHORIZED"

definition internalServerError :: "'a result" where
  "internalServerError = Failed INTERNAL_SERVER_ERROR"

section \<open>The catalog store\<close>

text \<open>
  The two repositories are the storage layer, an external collaborator. The store holds
  the rows of both tables and the id sequences. \<open>journal\<close> records the writes that took
  effect, in order. A call to the storage layer may fault: \<open>faulty s n\<close> tells whether
  the call number \<open>n\<close> does, and \<open>call_count\<close> counts the calls made so far.
\<close>

datatype store_write = SaveRestaurant restaurant | SaveDish dish | DeleteDish nat

record store =
  restaurant_rows :: "restaurant list"
  dish_rows :: "dish list"
  restaurant_seq :: nat
  dish_seq :: nat
  journal :: "store_write list"
  call_count :: nat
  faulty :: "nat \<Rightarrow> bool"

text \<open>An awaited call either returns a value or throws; the store goes on either way.\<close>

datatype 'a outcome = Returns 'a | Throws

type_synonym 'a io = "store \<Rightarrow> 'a outcome \<times> store"

definition io_return :: "'a \<Rightarrow> 'a io" where
  "io_return x s = (Returns x, s)"

definition io_throw :: "'a io" where
  "io_throw s = (Throws, s)"

definition io_bind :: "'a io \<Rightarrow> ('a \<Rightarrow> 'b io) \<Rightarrow> 'b io" where
  "io_bind m f s = (case m s of (Returns x, s') \<Rightarrow> f x s' | (Throws, s') \<Rightarrow> (Throws, s'))"

definition try_catch :: "'a io \<Rightarrow> 'a io \<Rightarrow> 'a io" where
  "try_catch body handler s =
     (case body s of (Returns x, s') \<Rightarrow> (Returns x, s') | (Throws, s') \<Rightarrow> handler s')"

definition storage_call :: "(store \<Rightarrow> 'a \<times> store) \<Rightarrow> 'a io" where
  "storage_call f s =
     (if faulty s (call_count s) then (Throws, s\<lparr>call_count := Suc (call_count s)\<rparr>)
      else (case f s of (x, s') \<Rightarrow> (Returns x, s'\<lparr>call_count := Suc (call_count s)\<rparr>)))"

definition dishes_of :: "store \<Rightarrow> restaurant \<Rightarrow> dish list" where
  "dishes_of s r = filter (\<lambda>d. Some (d_restaurantId d) = r_id r) (dish_rows s)"

text \<open>\<^verbatim>\<open>restaurants.findOne(id)\<close>\<close>

definition restaurants_findOne :: "nat \<Rightarrow> restaurant option io" where
  "restaurants_findOne i =
     storage_call (\<lambda>s. (find (\<lambda>r. r_id r = Some i) (restaurant_rows s), s))"

text \<open>\<^verbatim>\<open>restaurants.findOne({ id }, { relations: ['dishes'] })\<close>\<close>

definition restaurants_findOne_dishes :: "nat \<Rightarrow> (restaurant \<times> dish list) option io" where
  "restaurants_findOne_dishes i =
     storage_call (\<lambda>s.
       (map_option (\<lambda>r. (r, dishes_of s r)) (find (\<lambda>r. r_id r = Some i) (restaurant_rows s)),
        s))"

text \<open>\<^verbatim>\<open>restaurants.find({ owner })\<close>\<close>

definition restaurants_find_owner :: "user \<Rightarrow> restaurant list io" where
  "restaurants_find_owner owner =
     storage_call (\<lambda>s. (filter (\<lambda>r. r_ownerId r = user_id owner) (restaurant_rows s), s))"

text \<open>
  A condition of a \<^verbatim>\<open>where\<close> array. The only one the service builds is the raw fragment
  \<^verbatim>\<open>(keywords::jsonb->'w') is not null\<close>: the keyword map has the key \<open>w\<close>.
\<close>

datatype condition = KeywordsHasKey string

fun holds :: "condition \<Rightarrow> restaurant \<Rightarrow> bool" where
  "holds (KeywordsHasKey w) r = (fmlookup (r_keywords r) w \<noteq> None)"

text \<open>
  The rows a \<^verbatim>\<open>where\<close> array selects: the conditions are alternatives, and an empty
  array selects every row.
\<close>

definition candidates :: "condition fset \<Rightarrow> restaurant list \<Rightarrow> restaurant list" where
  "candidates conds rows =
     (if conds = {||} then rows else filter (\<lambda>r. fBex conds (\<lambda>c. holds c r)) rows)"

text \<open>
  The find options \<^verbatim>\<open>skip\<close> and \<^verbatim>\<open>take\<close> are applied only when they are truthy:
  a \<open>skip\<close> of 0 passes over nothing and a \<open>take\<close> of 0 cuts nothing, so that every row
  from there on is returned.
\<close>

definition paged :: "int \<Rightarrow> int \<Rightarrow> 'a list \<Rightarrow> 'a list" where
  "paged skip tk rows =
     (let passed = (if skip = 0 then rows else drop (nat skip) rows)
      in if tk = 0 then passed else take (nat tk) passed)"

text \<open>
  \<^verbatim>\<open>restaurants.find({ where, relations: ['dishes'], skip, take })\<close>: the selected
  rows, in the order of the table, paged by \<open>skip\<close> and \<open>take\<close>, each with its dishes.
  A negative \<open>skip\<close> or \<open>take\<close> goes to the database as it is, as the offset or the limit
  of the query; the database refuses a negative one and the call throws.
\<close>

definition restaurants_find ::
  "condition fset \<Rightarrow> int \<Rightarrow> int \<Rightarrow> (restaurant \<times> dish list) list io" where
  "restaurants_find conds skip tk =
     io_bind
       (storage_call (\<lambda>s.
          (map (\<lambda>r. (r, dishes_of s r)) (paged skip tk (candidates conds (restaurant_rows s))),
           s)))
       (\<lambda>rows. if skip < 0 \<or> tk < 0 then io_throw else io_return rows)"

text \<open>
  \<^verbatim>\<open>restaurants.save(restaurant)\<close>: an entity without an id is inserted under the next
  id of the sequence; one with the id of a row replaces that row.
\<close>

definition restaurants_save :: "restaurant \<Rightarrow> restaurant io" where
  "restaurants_save r =
     storage_call (\<lambda>s.
       case r_id r of
         None \<Rightarrow>
           (let r' = r\<lparr>r_id := Some (restaurant_seq s)\<rparr>
            in (r', s\<lparr>restaurant_rows := restaurant_rows s @ [r'],
                      restaurant_seq := Suc (restaurant_seq s),
                      journal := journal s @ [SaveRestaurant r']\<rparr>))
       | Some i \<Rightarrow>
           (r, s\<lparr>restaurant_rows :=
                    (if find (\<lambda>row. r_id row = Some i) (restaurant_rows s) = None
                     then restaurant_rows s @ [r]
                     else map (\<lambda>row. if r_id row = Some i then r else row) (restaurant_rows s)),
                  journal := journal s @ [SaveRestaurant r]\<rparr>))"

text \<open>\<^verbatim>\<open>dishes.findOne(id)\<close>\<close>

definition dishes_findOne :: "nat \<Rightarrow> dish option io" where
  "dishes_findOne i = storage_call (\<lambda>s. (find (\<lambda>d. d_id d = Some i) (dish_rows s), s))"

text \<open>\<^verbatim>\<open>dishes.save(dish)\<close>\<close>

definition dishes_save :: "dish \<Rightarrow> dish io" where
  "dishes_save d =
     storage_call (\<lambda>s.
       case d_id d of
         None \<Rightarrow>
           (let d' = d\<lparr>d_id := Some (dish_seq s)\<rparr>
            in (d', s\<lparr>dish_rows := dish_rows s @ [d'],
                      dish_seq := Suc (dish_seq s),
                      journal := journal s @ [SaveDish d']\<rparr>))
       | Some i \<Rightarrow>
           (d, s\<lparr>dish_rows :=
                    (if find (\<lambda>row. d_id row = Some i) (dish_rows s) = None
                     then dish_rows s @ [d]
                     else map (\<lambda>row. if d_id row = Some i then d else row) (dish_rows s)),
                  journal := journal s @ [SaveDish d]\<rparr>))"

text \<open>\<^verbatim>\<open>dishes.delete({ id })\<close>\<close>

definition dishes_delete :: "nat \<Rightarrow> unit io" where
  "dishes_delete i =
     storage_call (\<lambda>s.
       ((), s\<lparr>dish_rows := filter (\<lambda>d. d_id d \<noteq> Some i) (dish_rows s),
               journal := journal s @ [DeleteDish i]\<rparr>))"

section \<open>The restaurants service\<close>

definition createRestaurant :: "user \<Rightarrow> create_restaurant_input \<Rightarrow> restaurant result io" where
  "createRestaurant owner inp =
     try_catch
       (let created = \<lparr>r_id = None, r_ownerId = user_id owner, r_name = cr_name inp,
                       r_description = cr_description inp, r_keywords = fmempty\<rparr>;
            named = created\<lparr>r_keywords :=
                      extractAndCountKeywords fmempty (Some (cr_name inp)) False\<rparr>;
            restaurant = named\<lparr>r_keywords :=
                      extractAndCountKeywords (r_keywords named) (cr_description inp) False\<rparr>
        in io_bind (restaurants_save restaurant) (\<lambda>saved. io_return (Ok saved)))
       (io_return (Failed INTERNAL_SERVER_ERROR))"

definition myRestaurants :: "user \<Rightarrow> restaurant list result io" where
  "myRestaurants owner =
     try_catch
       (io_bind (restaurants_find_owner owner) (\<lambda>restaurants. io_return (Ok restaurants)))
       (io_return (Failed INTERNAL_SERVER_ERROR))"


text \<open>
  \<open>addDish\<close>: the three required fields are tested for truthiness first (absent, zero
  or empty is refused), then the restaurant is looked up and its owner compared with the
  caller; only then are the keywords extended and both entities saved, the dish first.
  The keyword map of a restaurant is always an object, so \<^verbatim>\<open>restaurant.keywords || {}\<close>
  is the map itself.
\<close>

definition addDish :: "user \<Rightarrow> add_dish_input \<Rightarrow> dish result io" where
  "addDish owner inp =
     try_catch
       (case (ad_restaurantId inp, ad_name inp, ad_price inp) of
          (Some restaurantId, Some name, Some price) \<Rightarrow>
            if restaurantId = 0 \<or> name = [] \<or> price = 0 then io_return badRequestError
            else
              io_bind (restaurants_findOne restaurantId) (\<lambda>found.
                case found of
                  None \<Rightarrow> io_return notFoundError
                | Some restaurant \<Rightarrow>
                    if user_id owner \<noteq> r_ownerId restaurant then io_return unauthorizedError
                    else
                      (let dish = \<lparr>d_id = None, d_restaurantId = restaurantId, d_name = name,
                                    d_description = ad_description inp, d_price = price,
                                    d_photo = ad_photo inp\<rparr>;
                           named = restaurant\<lparr>r_keywords :=
                                     extractAndCountKeywords (r_keywords restaurant)
                                       (Some name) False\<rparr>;
                           described = named\<lparr>r_keywords :=
                                     extractAndCountKeywords (r_keywords named)
                                       (ad_description inp) False\<rparr>
                       in io_bind (dishes_save dish) (\<lambda>saved.
                            io_bind (restaurants_save described) (\<lambda>_.
                              io_return (Ok saved)))))
        | _ \<Rightarrow> io_return badRequestError)
       (io_return (Failed INTERNAL_SERVER_ERROR))"

text \<open>
  \<open>deleteDish\<close>: reading \<^verbatim>\<open>restaurant.ownerId\<close> of a restaurant that was not found
  throws, and the throw is caught like a storage fault.
\<close>

definition deleteDish :: "user \<Rightarrow> nat \<Rightarrow> dish result io" where
  "deleteDish owner i =
     try_catch
       (io_bind (dishes_findOne i) (\<lambda>found.
          case found of
            None \<Rightarrow> io_return notFoundError
          | Some dish \<Rightarrow>
              io_bind (restaurants_findOne (d_restaurantId dish)) (\<lambda>parent.
                case parent of
                  None \<Rightarrow> io_throw
                | Some restaurant \<Rightarrow>
                    if r_ownerId restaurant \<noteq> user_id owner then io_return unauthorizedError
                    else
                      (let named = restaurant\<lparr>r_keywords :=
                                     extractAndCountKeywords (r_keywords restaurant)
                                       (Some (d_name dish)) True\<rparr>;
                           described = named\<lparr>r_keywords :=
                                     extractAndCountKeywords (r_keywords named)
                                       (d_description dish) True\<rparr>
                       in io_bind (restaurants_save described) (\<lambda>_.
                            io_bind (dishes_delete i) (\<lambda>_.
                              io_return (Ok dish)))))))
       (io_return internalServerError)"


text \<open>
  The part of \<open>updateDish\<close> that works on the two objects in memory, after the
  ownership check and before the save: the name, the description, the price and the photo
  in turn. It gives the restaurant and the dish as they are when the save is reached.
\<close>

definition updateDish_in_memory ::
  "update_dish_input \<Rightarrow> restaurant \<Rightarrow> dish \<Rightarrow> restaurant \<times> dish" where
  "updateDish_in_memory inp restaurant dish =
     (let (restaurant1, dish1) =
            (case ud_name inp of
               None \<Rightarrow> (restaurant, dish)
             | Some name \<Rightarrow>
                 if name = [] then (restaurant, dish)
                 else
                   (restaurant\<lparr>r_keywords :=
                      extractAndCountKeywords
                        (extractAndCountKeywords (r_keywords restaurant) (Some (d_name dish)) True)
                        (Some name) False\<rparr>,
                    dish\<lparr>d_name := name\<rparr>));
          (restaurant2, dish2) =
            (if truthy (ud_description inp)
             then
               (restaurant1\<lparr>r_keywords :=
                  extractAndCountKeywords
                    (if truthy (d_description dish1)
                     then extractAndCountKeywords (r_keywords restaurant1)
                            (d_description dish1) True
                     else r_keywords restaurant1)
                    (ud_description inp) False\<rparr>,
                dish1\<lparr>d_description := ud_description inp\<rparr>)
             else (restaurant1, dish1));
          dish3 = (case ud_price inp of None \<Rightarrow> dish2 | Some price \<Rightarrow> dish2\<lparr>d_price := price\<rparr>);
          dish4 = (if truthy (ud_photo inp) then dish3\<lparr>d_photo := ud_photo inp\<rparr> else dish3)
      in (restaurant2, dish4))"

text \<open>
  \<open>updateDish\<close>: of the two objects changed in memory, the only one handed to the store
  is the dish.
\<close>

definition updateDish :: "user \<Rightarrow> update_dish_input \<Rightarrow> dish result io" where
  "updateDish owner inp =
     try_catch
       (io_bind (dishes_findOne (ud_id inp)) (\<lambda>found.
          case found of
            None \<Rightarrow> io_return notFoundError
          | Some dish \<Rightarrow>
              io_bind (restaurants_findOne (d_restaurantId dish)) (\<lambda>parent.
                case parent of
                  None \<Rightarrow> io_throw
                | Some restaurant \<Rightarrow>
                    if r_ownerId restaurant \<noteq> user_id owner then io_return unauthorizedError
                    else
                      (let updated = snd (updateDish_in_memory inp restaurant dish)
                       in io_bind (dishes_save updated) (\<lambda>_. io_return (Ok updated))))))
       (io_return internalServerError)"

text \<open>
  \<open>browseWhere\<close>: one condition for each key of \<open>queryWords\<close> when the query is not
  empty and has a word, no condition otherwise.
\<close>

definition browseWhere :: "string \<Rightarrow> keyword_map \<Rightarrow> condition fset" where
  "browseWhere query queryWords =
     (if query \<noteq> [] \<and> fmdom queryWords \<noteq> {||} then KeywordsHasKey |`| fmdom queryWords
      else {||})"

text \<open>
  \<open>browseRestaurants\<close> has no \<^verbatim>\<open>try\<close> around its call of the store: a throw of the
  storage layer leaves the operation as a throw.
\<close>

definition browseRestaurants ::
  "browse_restaurants_input \<Rightarrow> (restaurant \<times> dish list) list result io" where
  "browseRestaurants inp =
     (let limit = (case br_limit inp of None \<Rightarrow> 10 | Some l \<Rightarrow> l);
          given = (case br_query inp of None \<Rightarrow> [] | Some q \<Rightarrow> q);
          offset = (case br_offset inp of None \<Rightarrow> 0 | Some k \<Rightarrow> k);
          query = toLowerCase given;
          queryWords = extractAndCountKeywords fmempty (Some query) False
      in io_bind
           (restaurants_find (browseWhere query queryWords)
              (if offset \<ge> 0 then offset * limit else 0) limit)
           (\<lambda>restaurants. io_return (Ok restaurants)))"

section \<open>An example catalog\<close>

text \<open>
  The data the closed statements below are evaluated on: one restaurant of owner 1 with
  one dish, the same store with three more restaurants, and a few inputs.
\<close>

definition sushi_house :: restaurant where
  "sushi_house =
     \<lparr>r_id = Some 1, r_ownerId = 1, r_name = ''Sushi House'', r_description = None,
      r_keywords = fmupd ''roll'' 1 (fmupd ''salmon'' 1 (fmupd ''house'' 1
                     (fmupd ''sushi'' 1 fmempty)))\<rparr>"

definition salmon_roll :: dish where
  "salmon_roll =
     \<lparr>d_id = Some 1, d_restaurantId = 1, d_name = ''Salmon Roll'', d_description = None,
      d_price = 12, d_photo = None\<rparr>"

definition catalog :: store where
  "catalog =
     \<lparr>restaurant_rows = [sushi_house], dish_rows = [salmon_roll], restaurant_seq = 2,
      dish_seq = 2, journal = [], call_count = 0, faulty = (\<lambda>n. False)\<rparr>"

definition tuna_bar :: restaurant where
  "tuna_bar =
     \<lparr>r_id = Some 2, r_ownerId = 2, r_name = ''Tuna Bar'', r_description = None,
      r_keywords = fmupd ''bar'' 1 (fmupd ''tuna'' 1 fmempty)\<rparr>"

definition pizza_corner :: restaurant where
  "pizza_corner =
     \<lparr>r_id = Some 3, r_ownerId = 3, r_name = ''Pizza Corner'', r_description = None,
      r_keywords = fmupd ''corner'' 1 (fmupd ''pizza'' 1 fmempty)\<rparr>"

definition poke_bowl :: restaurant where
  "poke_bowl =
     \<lparr>r_id = Some 4, r_ownerId = 2, r_name = ''Poke Bowl'',
      r_description = Some ''Tuna, tuna'',
      r_keywords = fmupd ''tuna'' 2 (fmupd ''bowl'' 1 (fmupd ''poke'' 1 fmempty))\<rparr>"

definition street :: store where
  "street = catalog\<lparr>restaurant_rows := [sushi_house, tuna_bar, pizza_corner, poke_bowl],
                     restaurant_seq := 5\<rparr>"

definition tuna_rename :: update_dish_input where
  "tuna_rename =
     \<lparr>ud_description = None, ud_id = 1, ud_photo = None, ud_price = None,
      ud_name = Some ''Tuna Roll''\<rparr>"

definition priceless :: add_dish_input where
  "priceless =
     \<lparr>ad_name = Some ''Tuna Roll'', ad_description = None, ad_photo = None,
      ad_price = None, ad_restaurantId = Some 1\<rparr>"

definition tuna_roll :: add_dish_input where
  "tuna_roll = priceless\<lparr>ad_price := Some 9\<rparr>"

definition third_page :: browse_restaurants_input where
  "third_page = \<lparr>br_limit = Some 1, br_query = None, br_offset = Some 2\<rparr>"

definition uncut :: browse_restaurants_input where
  "uncut = \<lparr>br_limit = Some 0, br_query = None, br_offset = None\<rparr>"

definition salmon_or_tuna :: browse_restaurants_input where
  "salmon_or_tuna = \<lparr>br_limit = None, br_query = Some ''Salmon TUNA'', br_offset = None\<rparr>"

definition no_words :: browse_restaurants_input where
  "no_words = \<lparr>br_limit = None, br_query = Some '' ?! '', br_offset = None\<rparr>"

section \<open>Properties of the keyword extractor\<close>

lemmas extractor_eval =
  extractAndCountKeywords_def tokenize_def toLowerCase_def lower_char_def word_char_def
  ascii_upper_def ascii_lower_def ascii_digits_def add_token_def subtract_token_def

lemma counts_positive_empty: "counts_positive fmempty"
  by (simp add: counts_positive_def)

lemma add_token_at:
  "fmlookup (add_token w m) k =
     (if k = w then Some ((case fmlookup m w of None \<Rightarrow> 0 | Some c \<Rightarrow> c) + 1)
      else fmlookup m k)"
  by (auto simp: add_token_def split: option.splits)

lemma subtract_token_at:
  "fmlookup (subtract_token w m) k =
     (if k = w
      then (case fmlookup m w of
              None \<Rightarrow> None
            | Some c \<Rightarrow> if c - 1 \<le> 0 then None else Some (c - 1))
      else fmlookup m k)"
  by (auto simp: subtract_token_def split: option.splits)

lemma counts_positive_add_token:
  assumes "counts_positive m"
  shows "counts_positive (add_token w m)"
  unfolding counts_positive_def
proof (intro allI impI)
  fix k c
  assume stored: "fmlookup (add_token w m) k = Some c"
  show "1 \<le> c"
  proof (cases "k = w")
    case True
    show ?thesis
    proof (cases "fmlookup m w")
      case None
      then show ?thesis
        using stored True by (simp add: add_token_at)
    next
      case (Some d)
      then have "1 \<le> d"
        using assms by (simp add: counts_positive_def)
      then show ?thesis
        using stored True Some by (simp add: add_token_at)
    qed
  next
    case False
    then have "fmlookup m k = Some c"
      using stored by (simp add: add_token_at)
    then show ?thesis
      using assms by (simp add: counts_positive_def)
  qed
qed

lemma counts_positive_subtract_token:
  assumes "counts_positive m"
  shows "counts_positive (subtract_token w m)"
  unfolding counts_positive_def
proof (intro allI impI)
  fix k c
  assume stored: "fmlookup (subtract_token w m) k = Some c"
  show "1 \<le> c"
  proof (cases "k = w")
    case True
    then show ?thesis
      using stored by (auto simp: subtract_token_at split: option.splits if_splits)
  next
    case False
    then have "fmlookup m k = Some c"
      using stored by (simp add: subtract_token_at)
    then show ?thesis
      using assms by (simp add: counts_positive_def)
  qed
qed

lemma counts_positive_fold:
  assumes "counts_positive m"
  shows "counts_positive (fold (if subtract then subtract_token else add_token) ws m)"
  using assms
proof (induction ws arbitrary: m)
  case Nil
  then show ?case by simp
next
  case (Cons w ws)
  have "counts_positive ((if subtract then subtract_token else add_token) w m)"
    using Cons.prems
    by (simp add: counts_positive_add_token counts_positive_subtract_token)
  then show ?case
    using Cons.IH by simp
qed

lemma counts_positive_extract:
  assumes "counts_positive m"
  shows "counts_positive (extractAndCountKeywords m t subtract)"
proof (cases t)
  case None
  then show ?thesis
    using assms by (simp add: extractAndCountKeywords_def)
next
  case (Some body)
  then show ?thesis
    using assms counts_positive_fold [OF assms, of subtract "tokenize body"]
    by (simp add: extractAndCountKeywords_def)
qed

text \<open>
  What adding a list of tokens does to one key: its count grows by the number of times
  the key occurs in the list.
\<close>

lemma fold_add_token_at:
  "fmlookup (fold add_token ws m) k =
     (if count_list ws k = 0 then fmlookup m k
      else Some ((case fmlookup m k of None \<Rightarrow> 0 | Some c \<Rightarrow> c) + int (count_list ws k)))"
proof (induction ws arbitrary: m)
  case Nil
  then show ?case by simp
next
  case (Cons w ws)
  have step: "fold add_token (w # ws) m = fold add_token ws (add_token w m)"
    by simp
  have here: "fmlookup (add_token w m) k =
      (if k = w then Some ((case fmlookup m w of None \<Rightarrow> 0 | Some c \<Rightarrow> c) + 1)
       else fmlookup m k)"
    by (rule add_token_at)
  show ?case
    unfolding step Cons.IH [of "add_token w m"] here
    by (simp split: option.splits)
qed

text \<open>
  What subtracting a list of tokens does to one key: the count falls by the number of
  occurrences, and the key goes once that leaves less than 1.
\<close>

lemma fold_subtract_token_at:
  "fmlookup (fold subtract_token ws m) k =
     (case fmlookup m k of
        None \<Rightarrow> None
      | Some c \<Rightarrow>
          if count_list ws k = 0 then Some c
          else if 1 \<le> c - int (count_list ws k) then Some (c - int (count_list ws k))
          else None)"
proof (induction ws arbitrary: m)
  case Nil
  then show ?case by (simp split: option.splits)
next
  case (Cons w ws)
  have step: "fold subtract_token (w # ws) m = fold subtract_token ws (subtract_token w m)"
    by simp
  have here: "fmlookup (subtract_token w m) k =
      (if k = w
       then (case fmlookup m w of
               None \<Rightarrow> None
             | Some c \<Rightarrow> if c - 1 \<le> 0 then None else Some (c - 1))
       else fmlookup m k)"
    by (rule subtract_token_at)
  show ?case
    unfolding step Cons.IH [of "subtract_token w m"] here
    by (auto split: option.splits)
qed

lemma fold_add_then_subtract:
  assumes "counts_positive m"
  shows "fold subtract_token ws (fold add_token ws m) = m"
proof (rule fmap_ext)
  fix k
  show "fmlookup (fold subtract_token ws (fold add_token ws m)) k = fmlookup m k"
  proof (cases "fmlookup m k")
    case None
    then show ?thesis
      by (simp add: fold_subtract_token_at fold_add_token_at)
  next
    case (Some c)
    then have "1 \<le> c"
      using assms by (simp add: counts_positive_def)
    then show ?thesis
      using Some by (simp add: fold_subtract_token_at fold_add_token_at)
  qed
qed

text \<open>
  Claim C3, as stated: for every map \<open>m\<close> and every text \<open>t\<close>, adding \<open>t\<close> and then
  subtracting the same \<open>t\<close> gives back \<open>m\<close>. It fails for a map that stores a count of
  zero: adding the token \<open>a\<close> raises the count to 1, subtracting it brings the count to 0
  and the key is deleted, so the result is the empty map and not the map started from.
\<close>

theorem extract_inverse_counterexample:
  "extractAndCountKeywords
     (extractAndCountKeywords (fmupd ''a'' 0 fmempty) (Some ''a'') False) (Some ''a'') True
   \<noteq> fmupd ''a'' 0 fmempty"
proof
  assume "extractAndCountKeywords
     (extractAndCountKeywords (fmupd ''a'' 0 fmempty) (Some ''a'') False) (Some ''a'') True
   = fmupd ''a'' 0 fmempty"
  then have "fmlookup (extractAndCountKeywords
     (extractAndCountKeywords (fmupd ''a'' 0 fmempty) (Some ''a'') False) (Some ''a'') True)
       ''a''
   = fmlookup (fmupd ''a'' (0::int) fmempty) ''a''"
    by simp
  then show False
    by (simp add: extractor_eval)
qed

text \<open>
  Claim C3, amended: for every map \<open>m\<close> whose counts are all at least 1 and every text
  \<open>t\<close> (absent, empty or not), adding \<open>t\<close> and then subtracting the same \<open>t\<close> restores
  exactly \<open>m\<close>.
\<close>

theorem extract_inverse:
  assumes "counts_positive m"
  shows "extractAndCountKeywords (extractAndCountKeywords m t False) t True = m"
  using assms
  by (simp add: extractAndCountKeywords_def fold_add_then_subtract split: option.splits)

theorem extract_inverse_witness:
  "counts_positive (fmupd ''roll'' 2 fmempty)
   \<and> extractAndCountKeywords
       (extractAndCountKeywords (fmupd ''roll'' 2 fmempty) (Some ''Salmon Roll'') False)
       (Some ''Salmon Roll'') True
     = fmupd ''roll'' 2 fmempty"
proof -
  have pos: "counts_positive (fmupd ''roll'' 2 fmempty)"
    by (simp add: counts_positive_def)
  show ?thesis
    using pos extract_inverse [OF pos, of "Some ''Salmon Roll''"] by simp
qed

text \<open>
  Claim C4: starting from a map whose counts are all at least 1 (the empty map is one),
  after any finite sequence of extractor calls every count in the resulting map is at
  least 1: no key is ever stored with a count of zero or below. A key that a subtracting
  call meets at least as many times as its count is gone from the result.
\<close>

theorem extractor_calls_counts_positive:
  assumes "counts_positive m"
  shows "(\<forall>w c. fmlookup (extractor_calls m cs) w = Some c \<longrightarrow> 1 \<le> c)
       \<and> (\<forall>t w c. fmlookup m w = Some c \<and> 0 < count_list (tokenize t) w
              \<and> c \<le> int (count_list (tokenize t) w)
            \<longrightarrow> fmlookup (extractAndCountKeywords m (Some t) True) w = None)"
proof -
  have "counts_positive (extractor_calls m cs)"
    using assms
  proof (induction cs arbitrary: m)
    case Nil
    then show ?case by simp
  next
    case (Cons call cs)
    obtain t subtract where call: "call = (t, subtract)"
      by (cases call)
    have "counts_positive (extractAndCountKeywords m t subtract)"
      using Cons.prems by (rule counts_positive_extract)
    then show ?case
      using Cons.IH call by simp
  qed
  then have kept: "\<forall>w c. fmlookup (extractor_calls m cs) w = Some c \<longrightarrow> 1 \<le> c"
    by (simp add: counts_positive_def)
  have gone: "fmlookup (extractAndCountKeywords m (Some t) True) w = None"
    if "fmlookup m w = Some c" and "0 < count_list (tokenize t) w"
      and "c \<le> int (count_list (tokenize t) w)" for t w c
  proof -
    have "t \<noteq> []"
      using that(2) by (auto simp: tokenize_def toLowerCase_def)
    then show ?thesis
      using that by (simp add: extractAndCountKeywords_def fold_subtract_token_at)
  qed
  show ?thesis
    using kept gone by blast
qed

theorem extractor_calls_counts_positive_witness:
  "counts_positive fmempty
   \<and> fmlookup (extractor_calls fmempty
        [(Some ''Sushi House'', False), (Some ''house sushi sushi'', True),
         (Some ''House'', False)]) ''house'' = Some 1
   \<and> fmlookup (extractor_calls fmempty
        [(Some ''Sushi House'', False), (Some ''house sushi sushi'', True),
         (Some ''House'', False)]) ''sushi'' = None
   \<and> (1::int) \<le> 1"
proof -
  let ?calls = "[(Some ''Sushi House'', False), (Some ''house sushi sushi'', True),
                 (Some ''House'', False)]"
  have house: "fmlookup (extractor_calls fmempty ?calls) ''house'' = Some 1"
    by (simp add: extractor_eval)
  have sushi: "fmlookup (extractor_calls fmempty ?calls) ''sushi'' = None"
    by (simp add: extractor_eval)
  have "(1::int) \<le> 1"
    using extractor_calls_counts_positive [OF counts_positive_empty, of ?calls] house
    by blast
  then show ?thesis
    using house sushi counts_positive_empty by blast
qed

section \<open>Properties of the service\<close>

lemmas io_defs = io_return_def io_throw_def io_bind_def try_catch_def storage_call_def

lemmas service_eval =
  io_defs dishes_findOne_def restaurants_findOne_def restaurants_findOne_dishes_def
  dishes_save_def restaurants_save_def dishes_delete_def restaurants_find_def
  restaurants_find_owner_def dishes_of_def paged_def
  badRequestError_def notFoundError_def unauthorizedError_def internalServerError_def
  truthy_def Let_def

lemmas example_eval =
  sushi_house_def salmon_roll_def catalog_def tuna_bar_def pizza_corner_def poke_bowl_def
  street_def tuna_rename_def priceless_def tuna_roll_def third_page_def uncut_def
  salmon_or_tuna_def no_words_def

lemma find_holds: "find P xs = Some x \<Longrightarrow> P x"
  by (induction xs) (auto split: if_splits)

subsection \<open>updateDish\<close>

text \<open>Whatever its input and its outcome, \<open>updateDish\<close> leaves the restaurant rows alone.\<close>

lemma updateDish_restaurant_rows:
  assumes "updateDish owner inp s = (out, s')"
  shows "restaurant_rows s' = restaurant_rows s"
  using assms
  by (auto simp: updateDish_def io_defs dishes_findOne_def restaurants_findOne_def
      dishes_save_def notFoundError_def unauthorizedError_def internalServerError_def Let_def
      split: option.splits if_splits prod.splits outcome.splits)

text \<open>
  Claim C1 says that a successful \<open>updateDish\<close> persists the dish and the restaurant
  with its updated keyword map. The code saves the dish only. Owner 1 renames the dish
  ``Salmon Roll'' of the example catalog to ``Tuna Roll'': the call succeeds, the one write
  is the save of the dish, and the stored restaurant is the one from before. In memory the
  keyword map has lost \<open>salmon\<close> and gained \<open>tuna\<close>; the stored map still has
  \<open>salmon\<close> and no \<open>tuna\<close>.
\<close>

theorem updateDish_leaves_restaurant_unsaved:
  "fst (updateDish \<lparr>user_id = 1\<rparr> tuna_rename catalog)
     = Returns (Ok (salmon_roll\<lparr>d_name := ''Tuna Roll''\<rparr>))
   \<and> journal (snd (updateDish \<lparr>user_id = 1\<rparr> tuna_rename catalog))
     = [SaveDish (salmon_roll\<lparr>d_name := ''Tuna Roll''\<rparr>)]
   \<and> dish_rows (snd (updateDish \<lparr>user_id = 1\<rparr> tuna_rename catalog))
     = [salmon_roll\<lparr>d_name := ''Tuna Roll''\<rparr>]
   \<and> restaurant_rows (snd (updateDish \<lparr>user_id = 1\<rparr> tuna_rename catalog)) = [sushi_house]
   \<and> fmlookup (r_keywords (fst (updateDish_in_memory tuna_rename sushi_house salmon_roll)))
        ''tuna'' = Some 1
   \<and> fmlookup (r_keywords (fst (updateDish_in_memory tuna_rename sushi_house salmon_roll)))
        ''salmon'' = None
   \<and> fmlookup (r_keywords sushi_house) ''tuna'' = None
   \<and> fmlookup (r_keywords sushi_house) ''salmon'' = Some 1"
proof -
  have run: "updateDish \<lparr>user_id = 1\<rparr> tuna_rename catalog =
      (Returns (Ok (salmon_roll\<lparr>d_name := ''Tuna Roll''\<rparr>)),
       catalog\<lparr>dish_rows := [salmon_roll\<lparr>d_name := ''Tuna Roll''\<rparr>],
               journal := [SaveDish (salmon_roll\<lparr>d_name := ''Tuna Roll''\<rparr>)],
               call_count := 3\<rparr>)"
    by (simp add: updateDish_def updateDish_in_memory_def service_eval example_eval)
  have tuna:
    "fmlookup (r_keywords (fst (updateDish_in_memory tuna_rename sushi_house salmon_roll)))
        ''tuna'' = Some 1"
    by (simp add: updateDish_in_memory_def service_eval example_eval extractor_eval)
  have salmon:
    "fmlookup (r_keywords (fst (updateDish_in_memory tuna_rename sushi_house salmon_roll)))
        ''salmon'' = None"
    by (simp add: updateDish_in_memory_def service_eval example_eval extractor_eval)
  have stored: "fmlookup (r_keywords sushi_house) ''tuna'' = None
      \<and> fmlookup (r_keywords sushi_house) ''salmon'' = Some 1"
    by (simp add: sushi_house_def)
  show ?thesis
    unfolding run
    using tuna salmon stored by (simp add: catalog_def)
qed

subsection \<open>browseRestaurants\<close>

lemma browseRestaurants_fault:
  assumes "faulty s (call_count s)"
  shows "browseRestaurants inp s = (Throws, s\<lparr>call_count := Suc (call_count s)\<rparr>)"
  using assms
  by (simp add: browseRestaurants_def restaurants_find_def io_defs Let_def)

lemma myRestaurants_fault:
  assumes "faulty s (call_count s)"
  shows "myRestaurants owner s =
    (Returns (Failed INTERNAL_SERVER_ERROR), s\<lparr>call_count := Suc (call_count s)\<rparr>)"
  using assms
  by (simp add: myRestaurants_def restaurants_find_owner_def io_defs)

text \<open>
  Claim C2 says that \<open>browseRestaurants\<close> answers a fault of the storage layer with a
  tagged internal-error result and never raises. On a store whose calls fault the code
  throws, where \<open>myRestaurants\<close>, which makes the same kind of call inside a
  \<^verbatim>\<open>try\<close>, returns the internal-error result.
\<close>

theorem browseRestaurants_throws_on_fault:
  "fst (browseRestaurants \<lparr>br_limit = None, br_query = None, br_offset = None\<rparr>
          (catalog\<lparr>faulty := \<lambda>n. True\<rparr>)) = Throws
   \<and> fst (myRestaurants \<lparr>user_id = 1\<rparr> (catalog\<lparr>faulty := \<lambda>n. True\<rparr>))
       = Returns (Failed INTERNAL_SERVER_ERROR)"
  by (simp add: browseRestaurants_fault myRestaurants_fault)

lemma fmdom_add_token: "fmdom (add_token w m) = finsert w (fmdom m)"
  by (auto simp: add_token_def split: option.splits)

lemma fmdom_fold_add_token: "fmdom (fold add_token ws m) = fmdom m |\<union>| fset_of_list ws"
proof (induction ws arbitrary: m)
  case Nil
  then show ?case by simp
next
  case (Cons w ws)
  have "fmdom (fold add_token (w # ws) m) = fmdom (add_token w m) |\<union>| fset_of_list ws"
    using Cons.IH [of "add_token w m"] by simp
  then show ?case
    by (simp add: fmdom_add_token)
qed

lemma tokenize_empty: "tokenize [] = []"
  by (simp add: tokenize_def toLowerCase_def)

text \<open>The keys of \<open>queryWords\<close> are the tokens of the query.\<close>

lemma queryWords_keys:
  "fmdom (extractAndCountKeywords fmempty (Some q) False) = fset_of_list (tokenize q)"
  by (simp add: extractAndCountKeywords_def fmdom_fold_add_token tokenize_empty)

lemma browseWhere_tokens:
  "browseWhere q (extractAndCountKeywords fmempty (Some q) False)
     = KeywordsHasKey |`| fset_of_list (tokenize q)"
proof (cases "q = []")
  case True
  then show ?thesis
    by (simp add: browseWhere_def queryWords_keys tokenize_empty)
next
  case False
  then show ?thesis
    by (auto simp: browseWhere_def queryWords_keys)
qed

lemma candidates_tokens:
  "candidates (browseWhere q (extractAndCountKeywords fmempty (Some q) False)) rows =
     (if tokenize q = [] then rows
      else filter (\<lambda>r. \<exists>w \<in> set (tokenize q). w |\<in>| fmdom (r_keywords r)) rows)"
proof (cases "tokenize q = []")
  case True
  then show ?thesis
    by (simp add: browseWhere_tokens candidates_def)
next
  case False
  then have nonempty: "KeywordsHasKey |`| fset_of_list (tokenize q) \<noteq> {||}"
    by (cases "tokenize q") auto
  have "\<And>r. fBex (KeywordsHasKey |`| fset_of_list (tokenize q)) (\<lambda>c. holds c r)
          \<longleftrightarrow> (\<exists>w \<in> set (tokenize q). w |\<in>| fmdom (r_keywords r))"
    by (auto simp: fset_of_list.rep_eq fmlookup_dom_iff)
  then show ?thesis
    using False nonempty by (simp add: browseWhere_tokens candidates_def)
qed

text \<open>
  What \<open>browseRestaurants\<close> returns when the storage layer does not fault and the limit
  is not negative: the candidates of its \<^verbatim>\<open>where\<close> array, paged, each with its dishes.
\<close>

lemma browseRestaurants_run:
  assumes up: "\<not> faulty s (call_count s)"
    and limit: "0 \<le> (case br_limit inp of None \<Rightarrow> 10 | Some l \<Rightarrow> l)"
  shows "browseRestaurants inp s =
    (let limit = (case br_limit inp of None \<Rightarrow> 10 | Some l \<Rightarrow> l);
         offset = (case br_offset inp of None \<Rightarrow> 0 | Some k \<Rightarrow> k);
         query = toLowerCase (case br_query inp of None \<Rightarrow> [] | Some q \<Rightarrow> q);
         skip = (if 0 \<le> offset then offset * limit else 0);
         found = candidates
                   (browseWhere query (extractAndCountKeywords fmempty (Some query) False))
                   (restaurant_rows s)
     in (Returns (Ok (map (\<lambda>r. (r, dishes_of s r)) (paged skip limit found))),
         s\<lparr>call_count := Suc (call_count s)\<rparr>))"
proof -
  let ?limit = "case br_limit inp of None \<Rightarrow> 10 | Some l \<Rightarrow> l"
  let ?offset = "case br_offset inp of None \<Rightarrow> 0 | Some k \<Rightarrow> k"
  have skip: "\<not> (if 0 \<le> ?offset then ?offset * ?limit else 0) < 0"
    using limit by (simp add: not_less)
  have take: "\<not> ?limit < 0"
    using limit by simp
  show ?thesis
    using up skip take
    by (simp add: browseRestaurants_def restaurants_find_def io_defs Let_def)
qed

text \<open>
  Claim C5: when the storage layer does not fault and the limit is not negative,
  \<open>browseRestaurants\<close> returns the page of these restaurants: if the lower-cased query
  has tokens, the restaurants whose keyword map has at least one of the tokens as a key,
  whatever the count; if it has none, every restaurant.
\<close>

theorem browseRestaurants_candidates:
  assumes "\<not> faulty s (call_count s)"
    and "0 \<le> (case br_limit inp of None \<Rightarrow> 10 | Some l \<Rightarrow> l)"
  shows "browseRestaurants inp s =
    (let limit = (case br_limit inp of None \<Rightarrow> 10 | Some l \<Rightarrow> l);
         offset = (case br_offset inp of None \<Rightarrow> 0 | Some k \<Rightarrow> k);
         query = toLowerCase (case br_query inp of None \<Rightarrow> [] | Some q \<Rightarrow> q);
         skip = (if 0 \<le> offset then offset * limit else 0);
         tokens = tokenize query;
         matching =
           (if tokens = [] then restaurant_rows s
            else filter (\<lambda>r. \<exists>w \<in> set tokens. w |\<in>| fmdom (r_keywords r))
                   (restaurant_rows s))
     in (Returns (Ok (map (\<lambda>r. (r, dishes_of s r)) (paged skip limit matching))),
         s\<lparr>call_count := Suc (call_count s)\<rparr>))"
  unfolding browseRestaurants_run [OF assms] Let_def candidates_tokens
  by simp

text \<open>
  The query ``Salmon TUNA'' on the four restaurants of the example gives the three that
  have \<open>salmon\<close> or \<open>tuna\<close> as a key and leaves out the one with neither; a query without
  a word gives all four.
\<close>

theorem browseRestaurants_candidates_witness:
  "\<not> faulty street (call_count street)
   \<and> fst (browseRestaurants salmon_or_tuna street)
       = Returns (Ok [(sushi_house, [salmon_roll]), (tuna_bar, []), (poke_bowl, [])])
   \<and> fst (browseRestaurants no_words street)
       = Returns (Ok [(sushi_house, [salmon_roll]), (tuna_bar, []), (pizza_corner, []),
                      (poke_bowl, [])])"
proof -
  have up: "\<not> faulty street (call_count street)"
    by (simp add: street_def catalog_def)
  have rows: "restaurant_rows street = [sushi_house, tuna_bar, pizza_corner, poke_bowl]"
    by (simp add: street_def)
  have dishes: "dishes_of street sushi_house = [salmon_roll]" "dishes_of street tuna_bar = []"
    "dishes_of street pizza_corner = []" "dishes_of street poke_bowl = []"
    by (simp_all add: dishes_of_def street_def catalog_def sushi_house_def tuna_bar_def
        pizza_corner_def poke_bowl_def salmon_roll_def)
  have two: "tokenize (toLowerCase ''Salmon TUNA'') = [''salmon'', ''tuna'']"
    by (simp add: extractor_eval)
  have none: "tokenize (toLowerCase '' ?! '') = []"
    by (simp add: extractor_eval)
  have keys:
    "''salmon'' |\<in>| fmdom (r_keywords sushi_house)"
    "''tuna'' |\<notin>| fmdom (r_keywords sushi_house)"
    "''salmon'' |\<notin>| fmdom (r_keywords tuna_bar)"
    "''tuna'' |\<in>| fmdom (r_keywords tuna_bar)"
    "''salmon'' |\<notin>| fmdom (r_keywords pizza_corner)"
    "''tuna'' |\<notin>| fmdom (r_keywords pizza_corner)"
    "''salmon'' |\<notin>| fmdom (r_keywords poke_bowl)"
    "''tuna'' |\<in>| fmdom (r_keywords poke_bowl)"
    by (simp_all add: sushi_house_def tuna_bar_def pizza_corner_def poke_bowl_def)
  have first: "fst (browseRestaurants salmon_or_tuna street)
       = Returns (Ok [(sushi_house, [salmon_roll]), (tuna_bar, []), (poke_bowl, [])])"
    using browseRestaurants_candidates [OF up, of salmon_or_tuna]
    by (simp add: salmon_or_tuna_def Let_def two rows keys paged_def dishes)
  have second: "fst (browseRestaurants no_words street)
       = Returns (Ok [(sushi_house, [salmon_roll]), (tuna_bar, []), (pizza_corner, []),
                      (poke_bowl, [])])"
    using browseRestaurants_candidates [OF up, of no_words]
    by (simp add: no_words_def Let_def none rows paged_def dishes)
  show ?thesis
    using up first second by simp
qed




subsection \<open>addDish\<close>

text \<open>
  Claim C7: an \<open>addDish\<close> call in which \<open>restaurantId\<close>, \<open>name\<close> or \<open>price\<close> is
  missing returns the validation error and leaves the store exactly as it was: no call
  of the storage layer is made, no lookup and no save.
\<close>

theorem addDish_missing_field:
  assumes "ad_restaurantId inp = None \<or> ad_name inp = None \<or> ad_price inp = None"
  shows "addDish owner inp s = (Returns (Failed BAD_REQUEST), s)"
  using assms
  by (auto simp: addDish_def io_defs badRequestError_def split: option.splits)

theorem addDish_missing_field_witness:
  "ad_price priceless = None
   \<and> addDish \<lparr>user_id = 1\<rparr> priceless catalog = (Returns (Failed BAD_REQUEST), catalog)"
  using addDish_missing_field [of priceless "\<lparr>user_id = 1\<rparr>" catalog]
  by (simp add: priceless_def)

text \<open>
  Claim C8, as stated: every \<open>addDish\<close> call on an existing restaurant by a caller who
  is not its owner returns an authorization error. The required fields are tested before
  the restaurant is looked up, so such a call without a price gets the validation error:
  restaurant 1 exists and belongs to owner 1, the caller is owner 2, and the result is
  not the authorization error.
\<close>

theorem addDish_not_owner_counterexample:
  "ad_restaurantId priceless = Some 1
   \<and> find (\<lambda>r. r_id r = Some 1) (restaurant_rows catalog) = Some sushi_house
   \<and> user_id \<lparr>user_id = 2\<rparr> \<noteq> r_ownerId sushi_house
   \<and> fst (addDish \<lparr>user_id = 2\<rparr> priceless catalog) = Returns (Failed BAD_REQUEST)
   \<and> fst (addDish \<lparr>user_id = 2\<rparr> priceless catalog) \<noteq> Returns (Failed UNAUTHORIZED)"
  by (simp add: addDish_def service_eval example_eval)

text \<open>
  Claim C8, amended: for every \<open>addDish\<close> call that supplies \<open>restaurantId\<close>, \<open>name\<close>
  and \<open>price\<close> (none absent, zero or empty), where the lookup finds the restaurant and
  the caller is not its owner, the operation returns the authorization error, and the
  restaurant rows with their keyword maps, the dish rows and the record of writes are
  what they were: no dish is created and nothing is persisted.
\<close>

theorem addDish_not_owner:
  assumes "ad_restaurantId inp = Some restaurantId" and "restaurantId \<noteq> 0"
    and "ad_name inp = Some name" and "name \<noteq> []"
    and "ad_price inp = Some price" and "price \<noteq> 0"
    and "restaurants_findOne restaurantId s = (Returns (Some restaurant), s')"
    and "user_id owner \<noteq> r_ownerId restaurant"
  shows "addDish owner inp s = (Returns (Failed UNAUTHORIZED), s')
         \<and> restaurant_rows s' = restaurant_rows s \<and> dish_rows s' = dish_rows s
         \<and> journal s' = journal s"
  using assms
  by (auto simp: addDish_def io_defs restaurants_findOne_def unauthorizedError_def
      split: option.splits if_splits)

theorem addDish_not_owner_witness:
  "restaurants_findOne 1 catalog = (Returns (Some sushi_house), catalog\<lparr>call_count := 1\<rparr>)
   \<and> fst (addDish \<lparr>user_id = 2\<rparr> tuna_roll catalog) = Returns (Failed UNAUTHORIZED)
   \<and> restaurant_rows (snd (addDish \<lparr>user_id = 2\<rparr> tuna_roll catalog)) = [sushi_house]
   \<and> dish_rows (snd (addDish \<lparr>user_id = 2\<rparr> tuna_roll catalog)) = [salmon_roll]
   \<and> journal (snd (addDish \<lparr>user_id = 2\<rparr> tuna_roll catalog)) = []"
proof -
  have look:
    "restaurants_findOne 1 catalog = (Returns (Some sushi_house), catalog\<lparr>call_count := 1\<rparr>)"
    by (simp add: service_eval example_eval)
  have "addDish \<lparr>user_id = 2\<rparr> tuna_roll catalog
      = (Returns (Failed UNAUTHORIZED), catalog\<lparr>call_count := 1\<rparr>)"
    using addDish_not_owner [of tuna_roll 1 "''Tuna Roll''" 9 catalog sushi_house
        "catalog\<lparr>call_count := 1\<rparr>" "\<lparr>user_id = 2\<rparr>"] look
    by (simp add: tuna_roll_def priceless_def sushi_house_def)
  then show ?thesis
    using look by (simp add: catalog_def)
qed

subsection \<open>deleteDish\<close>

text \<open>
  In any run of \<open>deleteDish\<close>, successful or not, the writes it makes are none, the save
  of the restaurant alone, or that save followed by the deletion of the dish.
\<close>

lemma deleteDish_writes:
  assumes "deleteDish owner i s = (out, s')"
  shows "\<exists>ws. journal s' = journal s @ ws
           \<and> (ws = [] \<or> (\<exists>r. ws = [SaveRestaurant r] \<or> ws = [SaveRestaurant r, DeleteDish i]))"
  using assms
  by (auto simp: deleteDish_def service_eval
      split: option.splits if_splits prod.splits outcome.splits)

text \<open>
  Claim C9: in every successful run of \<open>deleteDish\<close> the dish returned is the stored one,
  its parent restaurant belongs to the caller, and the run makes exactly two writes in
  this order: the save of the restaurant whose keyword map has had the dish's name and
  then its description subtracted, and after it the deletion of the dish. Afterwards the
  dish is no longer among the rows.
\<close>

theorem deleteDish_saves_before_delete:
  assumes "deleteDish owner i s = (Returns (Ok dish), s')"
  shows "\<exists>restaurant.
           find (\<lambda>d. d_id d = Some i) (dish_rows s) = Some dish
         \<and> find (\<lambda>r. r_id r = Some (d_restaurantId dish)) (restaurant_rows s) = Some restaurant
         \<and> r_ownerId restaurant = user_id owner
         \<and> journal s' = journal s @
              [SaveRestaurant (restaurant\<lparr>r_keywords :=
                 extractAndCountKeywords
                   (extractAndCountKeywords (r_keywords restaurant) (Some (d_name dish)) True)
                   (d_description dish) True\<rparr>),
               DeleteDish i]
         \<and> dish_rows s' = filter (\<lambda>d. d_id d \<noteq> Some i) (dish_rows s)"
  using assms
  by (auto simp: deleteDish_def service_eval
      split: option.splits if_splits prod.splits outcome.splits dest: find_holds)

theorem deleteDish_saves_before_delete_witness:
  "fst (deleteDish \<lparr>user_id = 1\<rparr> 1 catalog) = Returns (Ok salmon_roll)
   \<and> (\<exists>kept. journal (snd (deleteDish \<lparr>user_id = 1\<rparr> 1 catalog))
               = [SaveRestaurant (sushi_house\<lparr>r_keywords := kept\<rparr>), DeleteDish 1]
             \<and> fmlookup kept ''salmon'' = None \<and> fmlookup kept ''roll'' = None
             \<and> fmlookup kept ''sushi'' = Some 1 \<and> fmlookup kept ''house'' = Some 1)"
proof -
  have out: "fst (deleteDish \<lparr>user_id = 1\<rparr> 1 catalog) = Returns (Ok salmon_roll)"
    by (simp add: deleteDish_def service_eval example_eval)
  then have run: "deleteDish \<lparr>user_id = 1\<rparr> 1 catalog
      = (Returns (Ok salmon_roll), snd (deleteDish \<lparr>user_id = 1\<rparr> 1 catalog))"
    by (metis prod.collapse)
  obtain restaurant where
    parent: "find (\<lambda>r. r_id r = Some (d_restaurantId salmon_roll)) (restaurant_rows catalog)
               = Some restaurant"
    and written: "journal (snd (deleteDish \<lparr>user_id = 1\<rparr> 1 catalog)) = journal catalog @
        [SaveRestaurant (restaurant\<lparr>r_keywords :=
           extractAndCountKeywords
             (extractAndCountKeywords (r_keywords restaurant) (Some (d_name salmon_roll)) True)
             (d_description salmon_roll) True\<rparr>),
         DeleteDish 1]"
    using deleteDish_saves_before_delete [OF run] by blast
  have "restaurant = sushi_house"
    using parent by (simp add: catalog_def salmon_roll_def sushi_house_def)
  then show ?thesis
    using out written
    by (simp add: catalog_def salmon_roll_def sushi_house_def extractor_eval)
qed

subsection \<open>getDishById and myRestaurant\<close>



end
